theory Spec2Isabelle
  imports Main "HOL-Library.Word"
begin

section \<open>Byte strings\<close>

text \<open>
  A Go \<^verbatim>\<open>string\<close> or \<^verbatim>\<open>[]byte\<close> is a sequence of bytes: here a \<^typ>\<open>string\<close>, whose
  characters are the 256 byte values. The two bytes that the inner syntax cannot quote
  get a name.
\<close>

definition dquote :: char where
  "dquote = CHR 0x22"

definition bslash :: char where
  "bslash = CHR 0x5C"

definition is_space :: "char \<Rightarrow> bool" where
  \<comment> \<open>\<^verbatim>\<open>isSpace\<close> of encoding/json: space, tab, carriage return, line feed\<close>
  "is_space c = (c = CHR '' '' \<or> c = CHR 0x09 \<or> c = CHR 0x0D \<or> c = CHR 0x0A)"

definition is_digit :: "char \<Rightarrow> bool" where
  "is_digit c = (48 \<le> (of_char c :: nat) \<and> (of_char c :: nat) \<le> 57)"

definition between :: "nat \<Rightarrow> char \<Rightarrow> nat \<Rightarrow> bool" where
  "between lo c hi = (lo \<le> of_char c \<and> of_char c \<le> hi)"

fun join :: "string \<Rightarrow> string list \<Rightarrow> string" where
  "join sep [] = []"
| "join sep [x] = x"
| "join sep (x # y # ys) = x @ sep @ join sep (y # ys)"

subsection \<open>Decimal integers (\<^verbatim>\<open>%d\<close>, \<^verbatim>\<open>strconv.AppendInt\<close>)\<close>

function digits :: "nat \<Rightarrow> string" where
  "digits n = (if n < 10 then [char_of (48 + n)]
               else digits (n div 10) @ [char_of (48 + n mod 10)])"
  by pat_completeness auto
termination
  by (relation "measure (\<lambda>n. n)") auto

declare digits.simps [simp del]

definition itoa :: "int \<Rightarrow> string" where
  "itoa i = (if i < 0 then CHR ''-'' # digits (nat (- i)) else digits (nat i))"

subsection \<open>UTF-8 (\<^verbatim>\<open>utf8.DecodeRuneInString\<close>, \<^verbatim>\<open>utf8.AppendRune\<close>)\<close>

definition lead_size :: "nat \<Rightarrow> nat" where
  \<comment> \<open>the length that a first byte announces; 1 for a byte that cannot start a sequence\<close>
  "lead_size x = (if 0xC2 \<le> x \<and> x \<le> 0xDF then 2
                  else if 0xE0 \<le> x \<and> x \<le> 0xEF then 3
                  else if 0xF0 \<le> x \<and> x \<le> 0xF4 then 4 else 1)"

definition second_lo :: "nat \<Rightarrow> nat" where
  "second_lo x = (if x = 0xE0 then 0xA0 else if x = 0xF0 then 0x90 else 0x80)"

definition second_hi :: "nat \<Rightarrow> nat" where
  "second_hi x = (if x = 0xED then 0x9F else if x = 0xF4 then 0x8F else 0xBF)"

fun rune_size :: "string \<Rightarrow> nat" where
  \<comment> \<open>the size that \<^verbatim>\<open>DecodeRuneInString\<close> reports; on a first byte of 0x80 or more,
      size 1 is \<^verbatim>\<open>RuneError\<close>: the bytes are not valid UTF-8\<close>
  "rune_size [] = 0"
| "rune_size (a # s) =
    (let x = of_char a; n = lead_size x in
     if n = 2 then
       (case s of b # _ \<Rightarrow> if between 0x80 b 0xBF then 2 else 1 | _ \<Rightarrow> 1)
     else if n = 3 then
       (case s of b # c # _ \<Rightarrow>
          if between (second_lo x) b (second_hi x) \<and> between 0x80 c 0xBF then 3 else 1
        | _ \<Rightarrow> 1)
     else if n = 4 then
       (case s of b # c # d # _ \<Rightarrow>
          if between (second_lo x) b (second_hi x) \<and> between 0x80 c 0xBF
             \<and> between 0x80 d 0xBF then 4 else 1
        | _ \<Rightarrow> 1)
     else 1)"

definition replacement :: string where
  \<comment> \<open>U+FFFD in UTF-8\<close>
  "replacement = [CHR 0xEF, CHR 0xBF, CHR 0xBD]"

definition is_surrogate :: "nat \<Rightarrow> bool" where
  "is_surrogate r = (0xD800 \<le> r \<and> r < 0xE000)"

definition AppendRune :: "nat \<Rightarrow> string" where
  "AppendRune r =
    (if r < 0x80 then [char_of r]
     else if r < 0x800 then [char_of (0xC0 + r div 64), char_of (0x80 + r mod 64)]
     else if is_surrogate r \<or> 0x10FFFF < r then replacement
     else if r < 0x10000 then
       [char_of (0xE0 + r div 4096), char_of (0x80 + r div 64 mod 64), char_of (0x80 + r mod 64)]
     else
       [char_of (0xF0 + r div 262144), char_of (0x80 + r div 4096 mod 64),
        char_of (0x80 + r div 64 mod 64), char_of (0x80 + r mod 64)])"

function ToValidUTF8 :: "string \<Rightarrow> string" where
  \<comment> \<open>every byte that is not part of a valid sequence becomes U+FFFD, the way the
      encoder and the decoder of encoding/json read a string\<close>
  "ToValidUTF8 [] = []"
| "ToValidUTF8 (a # s) =
    (if (of_char a :: nat) < 0x80 then a # ToValidUTF8 s
     else if rune_size (a # s) = 1 then replacement @ ToValidUTF8 s
     else a # take (rune_size (a # s) - 1) s @ ToValidUTF8 (drop (rune_size (a # s) - 1) s))"
  by pat_completeness auto
termination
  by (relation "measure length") auto

section \<open>JSON texts as encoding/json writes and reads them\<close>

text \<open>
  The program hands Go values to \<^verbatim>\<open>json.Marshal\<close>. A value is represented by the tree
  that the encoder derives from its type and struct tags: objects keep the order of the
  fields, \<open>JRaw\<close> is a \<^verbatim>\<open>json.RawMessage\<close> (bytes spliced into the output),
  \<open>JReal\<close> the literal of a number that is not an integer (the decoder meets them; the
  program never writes one).
\<close>

datatype json =
    JNull
  | JBool bool
  | JInt int
  | JReal string
  | JStr string
  | JArr "json list"
  | JObj "(string \<times> json) list"
  | JRaw string

subsection \<open>Strings (\<^verbatim>\<open>appendString\<close> with \<^verbatim>\<open>escapeHTML\<close>)\<close>

definition hex :: string where
  "hex = ''0123456789abcdef''"

definition htmlSafe :: "char \<Rightarrow> bool" where
  \<comment> \<open>\<^verbatim>\<open>htmlSafeSet\<close>: the ASCII bytes written as they are\<close>
  "htmlSafe c = (0x20 \<le> (of_char c :: nat) \<and> (of_char c :: nat) < 0x80 \<and> c \<noteq> dquote
      \<and> c \<noteq> CHR ''&'' \<and> c \<noteq> CHR ''<'' \<and> c \<noteq> CHR ''>'' \<and> c \<noteq> bslash)"

definition u00 :: "char \<Rightarrow> string" where
  "u00 c = [bslash, CHR ''u'', CHR ''0'', CHR ''0'',
            hex ! (of_char c div 16), hex ! (of_char c mod 16)]"

definition escape_ascii :: "char \<Rightarrow> string" where
  "escape_ascii c =
    (if c = bslash \<or> c = dquote then [bslash, c]
     else if c = CHR 0x08 then [bslash, CHR ''b'']
     else if c = CHR 0x0C then [bslash, CHR ''f'']
     else if c = CHR 0x0A then [bslash, CHR ''n'']
     else if c = CHR 0x0D then [bslash, CHR ''r'']
     else if c = CHR 0x09 then [bslash, CHR ''t'']
     else u00 c)"

function escape :: "string \<Rightarrow> string" where
  "escape [] = []"
| "escape (a # s) =
    (if (of_char a :: nat) < 0x80 then
       (if htmlSafe a then [a] else escape_ascii a) @ escape s
     else if rune_size (a # s) = 1 then bslash # ''ufffd'' @ escape s
     else if a = CHR 0xE2 \<and> take 2 s = [CHR 0x80, CHR 0xA8] then
       bslash # ''u2028'' @ escape (drop 2 s)
     else if a = CHR 0xE2 \<and> take 2 s = [CHR 0x80, CHR 0xA9] then
       bslash # ''u2029'' @ escape (drop 2 s)
     else a # take (rune_size (a # s) - 1) s @ escape (drop (rune_size (a # s) - 1) s))"
  by pat_completeness auto
termination
  by (relation "measure length") auto

definition appendString :: "string \<Rightarrow> string" where
  "appendString s = dquote # escape s @ [dquote]"

subsection \<open>The encoder\<close>

datatype scan = Outside | Inside | Escaped

function squeeze :: "scan \<Rightarrow> string \<Rightarrow> string" where
  \<comment> \<open>what \<^verbatim>\<open>appendCompact\<close> leaves of a valid text: \<^verbatim>\<open><\<close>, \<^verbatim>\<open>>\<close>, \<^verbatim>\<open>&\<close>, U+2028 and
      U+2029 escaped, the white space between tokens dropped\<close>
  "squeeze q [] = []"
| "squeeze q (c # s) =
    (if c = CHR ''<'' \<or> c = CHR ''>'' \<or> c = CHR ''&'' then
       u00 c @ squeeze (if q = Outside then Outside else Inside) s
     else if c = CHR 0xE2 \<and> (take 2 s = [CHR 0x80, CHR 0xA8] \<or> take 2 s = [CHR 0x80, CHR 0xA9]) then
       bslash # ''u202'' @ [hex ! (of_char (s ! 1) mod 16)] @ squeeze q (drop 2 s)
     else (case q of
         Outside \<Rightarrow>
           if is_space c then squeeze Outside s
           else if c = dquote then c # squeeze Inside s
           else c # squeeze Outside s
       | Inside \<Rightarrow>
           if c = bslash then c # squeeze Escaped s
           else if c = dquote then c # squeeze Outside s
           else c # squeeze Inside s
       | Escaped \<Rightarrow> c # squeeze Inside s))"
  by pat_completeness auto
termination
  by (relation "measure (\<lambda>(q, s). length s)") auto

fun enc :: "json \<Rightarrow> string" where
  \<comment> \<open>the bytes \<^verbatim>\<open>json.Marshal\<close> writes for a value it accepts\<close>
  "enc JNull = ''null''"
| "enc (JBool b) = (if b then ''true'' else ''false'')"
| "enc (JInt i) = itoa i"
| "enc (JReal l) = l"
| "enc (JStr s) = appendString s"
| "enc (JArr xs) = ''['' @ join '','' (map enc xs) @ '']''"
| "enc (JObj ms) =
     ''{'' @ join '','' (map (\<lambda>(k, v). appendString k @ '':'' @ enc v) ms) @ ''}''"
| "enc (JRaw r) = squeeze Outside r"

subsection \<open>The decoder\<close>

text \<open>
  A recursive-descent reader of the JSON grammar. It accepts the texts that the scanner
  of encoding/json accepts (the scanner's limit on the nesting depth apart), and returns
  the value read together with the unread rest of the input. String escapes are resolved;
  bytes of 0x80 and more are kept as they are.
\<close>

definition hexval :: "char \<Rightarrow> nat option" where
  "hexval c =
    (let x = of_char c :: nat in
     if 48 \<le> x \<and> x \<le> 57 then Some (x - 48)
     else if 97 \<le> x \<and> x \<le> 102 then Some (x - 87)
     else if 65 \<le> x \<and> x \<le> 70 then Some (x - 55)
     else None)"

fun hex4 :: "string \<Rightarrow> nat option" where
  "hex4 (a # b # c # d # _) =
    (case (hexval a, hexval b, hexval c, hexval d) of
       (Some w, Some x, Some y, Some z) \<Rightarrow> Some (4096 * w + 256 * x + 16 * y + z)
     | _ \<Rightarrow> None)"
| "hex4 _ = None"

definition unescape :: "char \<Rightarrow> char option" where
  "unescape e =
    (if e = dquote \<or> e = bslash \<or> e = CHR ''/'' then Some e
     else if e = CHR ''b'' then Some (CHR 0x08)
     else if e = CHR ''f'' then Some (CHR 0x0C)
     else if e = CHR ''n'' then Some (CHR 0x0A)
     else if e = CHR ''r'' then Some (CHR 0x0D)
     else if e = CHR ''t'' then Some (CHR 0x09)
     else None)"

definition low_surrogate :: "string \<Rightarrow> nat option" where
  \<comment> \<open>the second half of a surrogate pair, when the text goes on with one\<close>
  "low_surrogate s =
    (case s of
       a # b # t \<Rightarrow>
         if a = bslash \<and> b = CHR ''u'' then
           (case hex4 t of
              Some r \<Rightarrow> if 0xDC00 \<le> r \<and> r < 0xE000 then Some r else None
            | None \<Rightarrow> None)
         else None
     | _ \<Rightarrow> None)"

function read_string :: "string \<Rightarrow> (string \<times> string) option" where
  \<comment> \<open>the input starts after the opening quote\<close>
  "read_string [] = None"
| "read_string (c # s) =
    (if c = dquote then Some ([], s)
     else if c = bslash then
       (case s of
          [] \<Rightarrow> None
        | e # t \<Rightarrow>
            if e = CHR ''u'' then
              (case hex4 t of
                 None \<Rightarrow> None
               | Some r \<Rightarrow>
                   (case (if r < 0xDC00 then low_surrogate (drop 4 t) else None) of
                      Some r2 \<Rightarrow>
                        if is_surrogate r then
                          map_option (map_prod ((@) (AppendRune
                              (0x10000 + (r - 0xD800) * 1024 + (r2 - 0xDC00)))) id)
                            (read_string (drop 10 t))
                        else map_option (map_prod ((@) (AppendRune r)) id)
                               (read_string (drop 4 t))
                    | None \<Rightarrow>
                        map_option (map_prod ((@) (AppendRune r)) id)
                          (read_string (drop 4 t))))
            else
              (case unescape e of
                 None \<Rightarrow> None
               | Some d \<Rightarrow> map_option (map_prod ((#) d) id) (read_string t)))
     else if (of_char c :: nat) < 0x20 then None
     else map_option (map_prod ((#) c) id) (read_string s))"
  by pat_completeness auto
termination
  by (relation "measure length") auto

definition dec_val :: "string \<Rightarrow> nat" where
  "dec_val ds = foldl (\<lambda>a c. 10 * a + (of_char c - 48)) 0 ds"

definition scan_int :: "string \<Rightarrow> string" where
  \<comment> \<open>the integer part of a number: a single 0, or digits that start with 1 to 9\<close>
  "scan_int s = (case s of [] \<Rightarrow> [] | c # t \<Rightarrow> if c = CHR ''0'' then [c] else takeWhile is_digit s)"

definition scan_frac :: "string \<Rightarrow> string option" where
  "scan_frac s =
    (case s of
       [] \<Rightarrow> Some []
     | c # t \<Rightarrow>
         if c = CHR ''.'' then
           (if takeWhile is_digit t = [] then None else Some (c # takeWhile is_digit t))
         else Some [])"

definition scan_exp :: "string \<Rightarrow> string option" where
  "scan_exp s =
    (case s of
       [] \<Rightarrow> Some []
     | c # t \<Rightarrow>
         if c = CHR ''e'' \<or> c = CHR ''E'' then
           (let sg = (case t of [] \<Rightarrow> [] | d # _ \<Rightarrow> if d = CHR ''+'' \<or> d = CHR ''-'' then [d] else []);
                ds = takeWhile is_digit (drop (length sg) t)
            in if ds = [] then None else Some (c # sg @ ds))
         else Some [])"

definition scan_number :: "string \<Rightarrow> (json \<times> string) option" where
  "scan_number s =
    (let sg = (case s of [] \<Rightarrow> [] | c # _ \<Rightarrow> if c = CHR ''-'' then [c] else []);
         ip = scan_int (drop (length sg) s)
     in if ip = [] then None
        else
          (case scan_frac (drop (length sg + length ip) s) of
             None \<Rightarrow> None
           | Some fp \<Rightarrow>
               (case scan_exp (drop (length sg + length ip + length fp) s) of
                  None \<Rightarrow> None
                | Some ep \<Rightarrow>
                    Some (if fp = [] \<and> ep = [] then
                            JInt (if sg = [] then int (dec_val ip) else - int (dec_val ip))
                          else JReal (sg @ ip @ fp @ ep),
                          drop (length sg + length ip + length fp + length ep) s))))"

lemma dropWhile_Cons_shorter: "dropWhile P s = c # r \<Longrightarrow> length r < length s"
  using length_dropWhile_le [of P s] by simp

function parse_value :: "string \<Rightarrow> (json \<times> string) option"
  and parse_elems :: "string \<Rightarrow> (json list \<times> string) option"
  and parse_members :: "string \<Rightarrow> ((string \<times> json) list \<times> string) option"
where
  "parse_value s =
    (case dropWhile is_space s of
       [] \<Rightarrow> None
     | c # r \<Rightarrow>
         if c = CHR ''{'' then
           (case dropWhile is_space r of
              [] \<Rightarrow> None
            | d # r' \<Rightarrow>
                if d = CHR ''}'' then Some (JObj [], r')
                else map_option (map_prod JObj id) (parse_members (d # r')))
         else if c = CHR ''['' then
           (case dropWhile is_space r of
              [] \<Rightarrow> None
            | d # r' \<Rightarrow>
                if d = CHR '']'' then Some (JArr [], r')
                else map_option (map_prod JArr id) (parse_elems (d # r')))
         else if c = dquote then map_option (map_prod JStr id) (read_string r)
         else if take 4 (c # r) = ''true'' then Some (JBool True, drop 3 r)
         else if take 5 (c # r) = ''false'' then Some (JBool False, drop 4 r)
         else if take 4 (c # r) = ''null'' then Some (JNull, drop 3 r)
         else scan_number (c # r))"
| "parse_elems s =
    (case parse_value s of
       None \<Rightarrow> None
     | Some (v, r) \<Rightarrow>
         (case dropWhile is_space r of
            [] \<Rightarrow> None
          | c # r' \<Rightarrow>
              if c = CHR '']'' then Some ([v], r')
              else if c = CHR '','' \<and> length r' < length s then
                map_option (map_prod ((#) v) id) (parse_elems r')
              else None))"
| "parse_members s =
    (case dropWhile is_space s of
       [] \<Rightarrow> None
     | q # r \<Rightarrow>
         if q \<noteq> dquote then None
         else
           (case read_string r of
              None \<Rightarrow> None
            | Some (k, r1) \<Rightarrow>
                (case dropWhile is_space r1 of
                   [] \<Rightarrow> None
                 | c # r2 \<Rightarrow>
                     if c \<noteq> CHR '':'' \<or> length s \<le> length r2 then None
                     else
                       (case parse_value r2 of
                          None \<Rightarrow> None
                        | Some (v, r3) \<Rightarrow>
                            (case dropWhile is_space r3 of
                               [] \<Rightarrow> None
                             | d # r4 \<Rightarrow>
                                 if d = CHR ''}'' then Some ([(k, v)], r4)
                                 else if d = CHR '','' \<and> length r4 < length s then
                                   map_option (map_prod ((#) (k, v)) id) (parse_members r4)
                                 else None)))))"
  by pat_completeness auto
termination
  by (relation "measure (\<lambda>x. case x of Inl s \<Rightarrow> 2 * length s
                                     | Inr (Inl s) \<Rightarrow> 2 * length s + 1
                                     | Inr (Inr s) \<Rightarrow> 2 * length s + 1)")
     (auto dest!: dropWhile_Cons_shorter)

declare parse_value.simps [simp del] parse_elems.simps [simp del] parse_members.simps [simp del]

definition decode :: "string \<Rightarrow> json option" where
  \<comment> \<open>one value, with nothing but white space after it\<close>
  "decode s =
    (case parse_value s of
       None \<Rightarrow> None
     | Some (v, r) \<Rightarrow> if dropWhile is_space r = [] then Some v else None)"

definition Valid :: "string \<Rightarrow> bool" where
  "Valid s = (decode s \<noteq> None)"

subsection \<open>\<^verbatim>\<open>json.Marshal\<close>\<close>

datatype error =
    MarshalerError
  | RequestError string
  | TransportError string
  | DecodeError string
  | UnmarshalError string
  | Errorf string

text \<open>
  \<open>MarshalerError\<close>: a \<^verbatim>\<open>json.RawMessage\<close> that is not valid JSON. The next four are the
  errors of \<^verbatim>\<open>http.NewRequestWithContext\<close>, of \<^verbatim>\<open>http.Client.Do\<close>, of
  \<^verbatim>\<open>json.Decoder.Decode\<close> and of \<^verbatim>\<open>json.Unmarshal\<close>. \<open>Errorf\<close> is the value of
  \<^verbatim>\<open>fmt.Errorf\<close> without \<^verbatim>\<open>%w\<close>: an error that holds its message and nothing else.
\<close>

definition number_literal :: "string \<Rightarrow> bool" where
  "number_literal l = (case scan_number l of Some (v, r) \<Rightarrow> r = [] | None \<Rightarrow> False)"

fun marshalable :: "json \<Rightarrow> bool" where
  "marshalable (JRaw r) = Valid r"
| "marshalable (JReal l) = number_literal l"
| "marshalable (JArr xs) = list_all marshalable xs"
| "marshalable (JObj ms) = list_all (\<lambda>(k, v). marshalable v) ms"
| "marshalable _ = True"

definition Marshal :: "json \<Rightarrow> error + string" where
  "Marshal v = (if marshalable v then Inr (enc v) else Inl MarshalerError)"

section \<open>The client (client.go)\<close>

definition apiHost :: string where
  "apiHost = ''api.mydnshost.co.uk''"

definition apiVersion :: string where
  "apiVersion = ''1.0''"

definition MethodGet :: string where
  "MethodGet = ''GET''"

definition MethodPost :: string where
  "MethodPost = ''POST''"

record apiResponse =
  ResponseId :: string
  Method :: string
  Error :: "string option"
  ErrorData :: "string \<rightharpoonup> string"
  Response :: "string option"

text \<open>
  \<open>Error\<close> and \<open>Response\<close> are pointers: \<open>None\<close> is \<^verbatim>\<open>nil\<close>, which the decoder leaves
  for an absent key and stores for a JSON \<^verbatim>\<open>null\<close>.
\<close>

subsection \<open>net/http\<close>

record 'c Request =
  req_Method :: string
  req_URL :: string
  req_Header :: "string \<rightharpoonup> string list"
  req_Body :: "string option"
  req_Context :: 'c

record http_Response =
  StatusCode :: int
  resp_Body :: string

subsection \<open>Authenticators\<close>

datatype 'c ClientAuthenticator =
    ApiKeyAuthenticator (User: string) (Key: string)
  | DomainKeyAuthenticator (Domain: string) (Key: string)
  | OtherAuthenticator "'c Request \<Rightarrow> 'c Request"

text \<open>
  \<^verbatim>\<open>ClientAuthenticator\<close> is an interface; \<open>OtherAuthenticator\<close> stands for an
  implementation from outside the package, which may change the request as it likes.
\<close>

fun AddHeaders :: "'c ClientAuthenticator \<Rightarrow> 'c Request \<Rightarrow> 'c Request" where
  "AddHeaders (ApiKeyAuthenticator user key) r =
     r\<lparr>req_Header := ((req_Header r)(''X-API-User'' \<mapsto> [user]))(''X-API-Key'' \<mapsto> [key])\<rparr>"
| "AddHeaders (DomainKeyAuthenticator domain key) r =
     r\<lparr>req_Header := ((req_Header r)(''X-Domain'' \<mapsto> [domain]))(''X-Domain-Key'' \<mapsto> [key])\<rparr>"
| "AddHeaders (OtherAuthenticator f) r = f r"

record 'c Client =
  Authenticator :: "'c ClientAuthenticator option"

subsection \<open>Typed results\<close>

record PingResponse =
  Time :: string

record UserDataUser =
  user_Id :: string
  Email :: string
  RealName :: string

record UserDataAccess =
  DomainsRead :: bool
  DomainsWrite :: bool
  UserRead :: bool
  UserWrite :: bool

record UserDataResponse =
  user_User :: UserDataUser
  Access :: UserDataAccess

type_synonym AccessLevel = string

definition LevelOwner :: AccessLevel where "LevelOwner = ''owner''"
definition LevelAdmin :: AccessLevel where "LevelAdmin = ''admin''"
definition LevelWrite :: AccessLevel where "LevelWrite = ''write''"
definition LevelRead :: AccessLevel where "LevelRead = ''read''"
definition LevelNone :: AccessLevel where "LevelNone = ''none''"

record Record =
  Name :: string
  Type :: string
  Content :: string
  TTL :: int
  Priority :: "int option"
  Disabled :: "bool option"

record ExistingRecord = Record +
  Id' :: int
  ChangedAt :: int
  ChangedBy :: "int option"

record ChangedRecord = ExistingRecord +
  Updated :: bool
  Deleted :: bool

record Soa =
  PrimaryNS :: string
  AdminAddress :: string
  Serial :: "64 word"
  Refresh :: "64 word"
  Retry :: "64 word"
  Expire :: "64 word"
  MinTTL :: "64 word"

record RecordsResponse =
  Records :: "ExistingRecord list"
  HasNS :: bool
  soa :: Soa

record ModifyRecordsResponse =
  mod_Serial :: "64 word"
  Changed :: "ChangedRecord list"

subsection \<open>The world outside the program\<close>

text \<open>
  What the program does not decide is a parameter: the clock, what net/http says of a
  method and a URL, what the network answers to a request (given the requests before it),
  and what encoding/json makes of the bytes of a response, for the envelope and for each
  typed result (the value left in the result, and the error).
\<close>

record 'c env =
  unix_now :: int
  new_request_error :: "string \<Rightarrow> string \<Rightarrow> error option"
  transport :: "'c Request list \<Rightarrow> 'c Request \<Rightarrow> error + http_Response"
  decode_envelope :: "string \<Rightarrow> error + apiResponse"
  unmarshal_Ping :: "string \<Rightarrow> PingResponse \<times> error option"
  unmarshal_UserData :: "string \<Rightarrow> UserDataResponse \<times> error option"
  unmarshal_Domains :: "string \<Rightarrow> (string \<rightharpoonup> AccessLevel) \<times> error option"
  unmarshal_Records :: "string \<Rightarrow> RecordsResponse \<times> error option"
  unmarshal_ModifyRecords :: "string \<Rightarrow> ModifyRecordsResponse \<times> error option"

record 'c net =
  sent :: "'c Request list"
  open_bodies :: nat

text \<open>
  \<open>sent\<close> lists the requests handed to the HTTP client, oldest first; \<open>open_bodies\<close>
  counts the response bodies that were obtained and not closed yet.
\<close>

definition NewRequestWithContext ::
  "'c env \<Rightarrow> 'c \<Rightarrow> string \<Rightarrow> string \<Rightarrow> string option \<Rightarrow> error + 'c Request" where
  "NewRequestWithContext E ctx method url body =
    (case new_request_error E method url of
       Some err \<Rightarrow> Inl err
     | None \<Rightarrow>
         Inr \<lparr>req_Method = method, req_URL = url, req_Header = Map.empty,
              req_Body = body, req_Context = ctx\<rparr>)"

definition Do :: "'c env \<Rightarrow> 'c Request \<Rightarrow> 'c net \<Rightarrow> (error + http_Response) \<times> 'c net" where
  "Do E req n =
    (case transport E (sent n) req of
       Inl err \<Rightarrow> (Inl err, n\<lparr>sent := sent n @ [req]\<rparr>)
     | Inr res \<Rightarrow> (Inr res, n\<lparr>sent := sent n @ [req], open_bodies := Suc (open_bodies n)\<rparr>))"

definition Close :: "'c net \<Rightarrow> 'c net" where
  "Close n = n\<lparr>open_bodies := open_bodies n - 1\<rparr>"

subsection \<open>\<^verbatim>\<open>request\<close>\<close>

definition request ::
  "'c env \<Rightarrow> 'c Client \<Rightarrow> 'c \<Rightarrow> string \<Rightarrow> string \<Rightarrow> json option \<Rightarrow> 'c net
     \<Rightarrow> (error + apiResponse) \<times> 'c net" where
  "request E c ctx method route body n =
    (case (case body of
             None \<Rightarrow> Inr None
           | Some v \<Rightarrow> (case Marshal v of Inl err \<Rightarrow> Inl err | Inr b \<Rightarrow> Inr (Some b))) of
       Inl err \<Rightarrow> (Inl err, n)
     | Inr reader \<Rightarrow>
         (case NewRequestWithContext E ctx method
                 (''https://'' @ apiHost @ ''/'' @ apiVersion @ ''/'' @ route) reader of
            Inl err \<Rightarrow> (Inl err, n)
          | Inr req \<Rightarrow>
              (case Do E (case Authenticator c of None \<Rightarrow> req | Some a \<Rightarrow> AddHeaders a req) n of
                 (Inl err, n') \<Rightarrow> (Inl err, n')
               | (Inr res, n') \<Rightarrow>
                   (case decode_envelope E (resp_Body res) of
                      Inl err \<Rightarrow> (Inl err, Close n')
                    | Inr response \<Rightarrow>
                        (case Error response of
                           Some msg \<Rightarrow> (Inl (Errorf (''API error: '' @ msg)), Close n')
                         | None \<Rightarrow> (Inr response, Close n'))))))"

subsection \<open>The typed endpoints\<close>

text \<open>
  A method returns a pair (result, error), or panics: \<^verbatim>\<open>*res.Response\<close> on a
  \<^verbatim>\<open>nil\<close> pointer is a run-time panic, not an error value.
\<close>

datatype 'a outcome = Return "'a option" "error option" | PanicNilDereference

definition Ping ::
  "'c env \<Rightarrow> 'c Client \<Rightarrow> 'c \<Rightarrow> 'c net \<Rightarrow> PingResponse outcome \<times> 'c net" where
  "Ping E c ctx n =
    (case request E c ctx MethodGet (''ping/'' @ itoa (unix_now E)) None n of
       (Inl err, n') \<Rightarrow> (Return None (Some err), n')
     | (Inr res, n') \<Rightarrow>
         (case Response res of
            None \<Rightarrow> (PanicNilDereference, n')
          | Some raw \<Rightarrow>
              (Return (Some (fst (unmarshal_Ping E raw))) (snd (unmarshal_Ping E raw)), n')))"

definition UserData ::
  "'c env \<Rightarrow> 'c Client \<Rightarrow> 'c \<Rightarrow> 'c net \<Rightarrow> UserDataResponse outcome \<times> 'c net" where
  "UserData E c ctx n =
    (case request E c ctx MethodGet ''userdata'' None n of
       (Inl err, n') \<Rightarrow> (Return None (Some err), n')
     | (Inr res, n') \<Rightarrow>
         (case Response res of
            None \<Rightarrow> (PanicNilDereference, n')
          | Some raw \<Rightarrow>
              (Return (Some (fst (unmarshal_UserData E raw))) (snd (unmarshal_UserData E raw)), n')))"

definition Domains ::
  "'c env \<Rightarrow> 'c Client \<Rightarrow> 'c \<Rightarrow> 'c net \<Rightarrow> (string \<rightharpoonup> AccessLevel) outcome \<times> 'c net" where
  "Domains E c ctx n =
    (case request E c ctx MethodGet ''domains'' None n of
       (Inl err, n') \<Rightarrow> (Return None (Some err), n')
     | (Inr res, n') \<Rightarrow>
         (case Response res of
            None \<Rightarrow> (PanicNilDereference, n')
          | Some raw \<Rightarrow>
              (Return (Some (fst (unmarshal_Domains E raw))) (snd (unmarshal_Domains E raw)), n')))"

definition Records_of ::
  "'c env \<Rightarrow> 'c Client \<Rightarrow> 'c \<Rightarrow> string \<Rightarrow> 'c net \<Rightarrow> RecordsResponse outcome \<times> 'c net" where
  "Records_of E c ctx domain n =
    (case request E c ctx MethodGet (''domains/'' @ domain @ ''/records'') None n of
       (Inl err, n') \<Rightarrow> (Return None (Some err), n')
     | (Inr res, n') \<Rightarrow>
         (case Response res of
            None \<Rightarrow> (PanicNilDereference, n')
          | Some raw \<Rightarrow>
              (Return (Some (fst (unmarshal_Records E raw))) (snd (unmarshal_Records E raw)), n')))"

subsection \<open>Record operations\<close>

type_synonym RecordOperation = string

definition Record_fields :: "'a Record_scheme \<Rightarrow> (string \<times> json) list" where
  \<comment> \<open>the members written for the fields of \<^verbatim>\<open>Record\<close>, all of them \<^verbatim>\<open>omitempty\<close>:
      an empty string, a zero and a nil pointer are left out\<close>
  "Record_fields r =
     (if Name r = [] then [] else [(''name'', JStr (Name r))]) @
     (if Type r = [] then [] else [(''type'', JStr (Type r))]) @
     (if Content r = [] then [] else [(''content'', JStr (Content r))]) @
     (if TTL r = 0 then [] else [(''ttl'', JInt (TTL r))]) @
     (case Priority r of None \<Rightarrow> [] | Some p \<Rightarrow> [(''priority'', JInt p)]) @
     (case Disabled r of None \<Rightarrow> [] | Some d \<Rightarrow> [(''disabled'', JBool d)])"

definition ExistingRecord_fields :: "'a ExistingRecord_scheme \<Rightarrow> (string \<times> json) list" where
  \<comment> \<open>the promoted fields of the embedded \<^verbatim>\<open>Record\<close> first, then the struct's own\<close>
  "ExistingRecord_fields r =
     Record_fields r @ [(''id'', JInt (Id' r))] @
     (if ChangedAt r = 0 then [] else [(''changed_at'', JInt (ChangedAt r))]) @
     (case ChangedBy r of None \<Rightarrow> [] | Some b \<Rightarrow> [(''changed_by'', JInt b)])"

definition discard_error :: "error + string \<Rightarrow> string" where
  \<comment> \<open>\<^verbatim>\<open>res, _ := json.Marshal(...)\<close>: the error is dropped, and \<^verbatim>\<open>res\<close> is empty with it\<close>
  "discard_error x = (case x of Inl err \<Rightarrow> [] | Inr res \<Rightarrow> res)"

definition ModifyRecord :: "int \<Rightarrow> Record \<Rightarrow> RecordOperation" where
  "ModifyRecord i record =
     discard_error (Marshal (JObj (ExistingRecord_fields
       \<lparr>Name = Name record, Type = Type record, Content = Content record, TTL = TTL record,
        Priority = Priority record, Disabled = Disabled record,
        Id' = i, ChangedAt = 0, ChangedBy = None\<rparr>)))"

definition DeleteRecord :: "int \<Rightarrow> RecordOperation" where
  "DeleteRecord i = discard_error (Marshal (JObj [(''id'', JInt i), (''delete'', JBool True)]))"

definition CreateRecord :: "Record \<Rightarrow> RecordOperation" where
  "CreateRecord record = discard_error (Marshal (JObj (Record_fields record)))"

definition ModifyRecords ::
  "'c env \<Rightarrow> 'c Client \<Rightarrow> 'c \<Rightarrow> string \<Rightarrow> RecordOperation list \<Rightarrow> 'c net
     \<Rightarrow> ModifyRecordsResponse outcome \<times> 'c net" where
  "ModifyRecords E c ctx domain operations n =
    (case request E c ctx MethodPost (''domains/'' @ domain @ ''/records'')
            (Some (JObj [(''data'', JObj [(''records'', JArr (map JRaw operations))])])) n of
       (Inl err, n') \<Rightarrow> (Return None (Some err), n')
     | (Inr res, n') \<Rightarrow>
         (case Response res of
            None \<Rightarrow> (PanicNilDereference, n')
          | Some raw \<Rightarrow>
              (Return (Some (fst (unmarshal_ModifyRecords E raw)))
                      (snd (unmarshal_ModifyRecords E raw)), n')))"

subsection \<open>Notation for the statements, and a world for the examples\<close>

text \<open>
  \<open>authenticated c req\<close> is the request after the step of \<^verbatim>\<open>request\<close> that calls the
  authenticator, if there is one; \<open>base_request\<close> is the request as
  \<^verbatim>\<open>http.NewRequestWithContext\<close> returns it inside \<^verbatim>\<open>request\<close>.
\<close>

abbreviation authenticated :: "'c Client \<Rightarrow> 'c Request \<Rightarrow> 'c Request" where
  "authenticated c req \<equiv> (case Authenticator c of None \<Rightarrow> req | Some a \<Rightarrow> AddHeaders a req)"

definition base_request :: "'c \<Rightarrow> string \<Rightarrow> string \<Rightarrow> string option \<Rightarrow> 'c Request" where
  "base_request ctx method route body =
     \<lparr>req_Method = method, req_URL = ''https://api.mydnshost.co.uk/1.0/'' @ route,
      req_Header = Map.empty, req_Body = body, req_Context = ctx\<rparr>"

text \<open>
  In \<open>example_env status body e\<close> every method and URL is accepted, the server answers
  every request with the given status and body, the body decodes to the envelope \<open>e\<close>,
  and the payloads decode without error: Ping's to a result that holds the payload
  bytes, the others to the zero value of their type.
\<close>

definition example_env :: "int \<Rightarrow> string \<Rightarrow> apiResponse \<Rightarrow> unit env" where
  "example_env status body e =
    \<lparr>unix_now = 1604000000,
     new_request_error = (\<lambda>m u. None),
     transport = (\<lambda>h q. Inr \<lparr>StatusCode = status, resp_Body = body\<rparr>),
     decode_envelope = (\<lambda>b. if b = body then Inr e else Inl (DecodeError ''unexpected'')),
     unmarshal_Ping = (\<lambda>raw. (\<lparr>Time = raw\<rparr>, None)),
     unmarshal_UserData = (\<lambda>raw. (\<lparr>user_User = \<lparr>user_Id = [], Email = [], RealName = []\<rparr>,
        Access = \<lparr>DomainsRead = False, DomainsWrite = False, UserRead = False, UserWrite = False\<rparr>\<rparr>, None)),
     unmarshal_Domains = (\<lambda>raw. (Map.empty, None)),
     unmarshal_Records = (\<lambda>raw. (\<lparr>Records = [], HasNS = False,
        soa = \<lparr>PrimaryNS = [], AdminAddress = [], Serial = 0, Refresh = 0, Retry = 0, Expire = 0, MinTTL = 0\<rparr>\<rparr>, None)),
     unmarshal_ModifyRecords = (\<lambda>raw. (\<lparr>mod_Serial = 0, Changed = []\<rparr>, None))\<rparr>"

definition no_client :: "unit Client" where "no_client = \<lparr>Authenticator = None\<rparr>"
definition idle :: "unit net" where "idle = \<lparr>sent = [], open_bodies = 0\<rparr>"
definition invalid_domain :: "(string \<rightharpoonup> string) \<Rightarrow> apiResponse" where
  "invalid_domain d = \<lparr>ResponseId = [], Method = [], Error = Some ''invalid domain'', ErrorData = d, Response = Some ''{}''\<rparr>"
definition success :: "string option \<Rightarrow> apiResponse" where
  "success r = \<lparr>ResponseId = [], Method = [], Error = None, ErrorData = Map.empty, Response = r\<rparr>"


section \<open>Properties\<close>

subsection \<open>What \<^verbatim>\<open>request\<close> does\<close>

lemma url_eq: "''https://'' @ apiHost @ ''/'' @ apiVersion @ ''/'' @ route = ''https://api.mydnshost.co.uk/1.0/'' @ route"
  by (simp add: apiHost_def apiVersion_def)

lemma request_None:
  "request E c ctx method route None n =
    (case new_request_error E method (''https://api.mydnshost.co.uk/1.0/'' @ route) of
       Some err \<Rightarrow> (Inl err, n)
     | None \<Rightarrow>
        (case transport E (sent n) (authenticated c (base_request ctx method route None)) of
           Inl err \<Rightarrow> (Inl err, n\<lparr>sent := sent n @ [authenticated c (base_request ctx method route None)]\<rparr>)
         | Inr res \<Rightarrow>
            (case decode_envelope E (resp_Body res) of
               Inl err \<Rightarrow> Inl err
             | Inr e \<Rightarrow> (case Error e of Some msg \<Rightarrow> Inl (Errorf (''API error: '' @ msg)) | None \<Rightarrow> Inr e),
             n\<lparr>sent := sent n @ [authenticated c (base_request ctx method route None)]\<rparr>)))"
  unfolding request_def url_eq NewRequestWithContext_def Do_def Close_def base_request_def
  by (simp split: option.splits sum.splits)

lemma request_Some:
  "request E c ctx method route (Some v) n =
    (if \<not> marshalable v then (Inl MarshalerError, n) else
     case new_request_error E method (''https://api.mydnshost.co.uk/1.0/'' @ route) of
       Some err \<Rightarrow> (Inl err, n)
     | None \<Rightarrow>
        (case transport E (sent n) (authenticated c (base_request ctx method route (Some (enc v)))) of
           Inl err \<Rightarrow> (Inl err, n\<lparr>sent := sent n @ [authenticated c (base_request ctx method route (Some (enc v)))]\<rparr>)
         | Inr res \<Rightarrow>
            (case decode_envelope E (resp_Body res) of
               Inl err \<Rightarrow> Inl err
             | Inr e \<Rightarrow> (case Error e of Some msg \<Rightarrow> Inl (Errorf (''API error: '' @ msg)) | None \<Rightarrow> Inr e),
             n\<lparr>sent := sent n @ [authenticated c (base_request ctx method route (Some (enc v)))]\<rparr>)))"
  unfolding request_def url_eq NewRequestWithContext_def Do_def Close_def base_request_def Marshal_def
  by (simp split: option.splits sum.splits)

lemma request_sent:
  "sent (snd (request E c ctx method route body n)) =
    (if (\<exists>v. body = Some v \<and> \<not> marshalable v)
        \<or> new_request_error E method (''https://api.mydnshost.co.uk/1.0/'' @ route) \<noteq> None
     then sent n
     else sent n @ [authenticated c (base_request ctx method route (map_option enc body))])"
  by (cases body) (auto simp: request_None request_Some split: option.splits sum.splits)

lemma request_fst:
  assumes "\<And>h q. transport E h q = Inr res" and "\<And>m u. new_request_error E m u = None"
    and "decode_envelope E (resp_Body res) = Inr e" and "\<And>v. body = Some v \<Longrightarrow> marshalable v"
  shows "fst (request E c ctx method route body n) =
      (case Error e of Some msg \<Rightarrow> Inl (Errorf (''API error: '' @ msg)) | None \<Rightarrow> Inr e)"
  using assms by (cases body) (auto simp: request_None request_Some split: option.splits sum.splits)

lemma marshalable_batch: "marshalable (JObj [(''data'', JObj [(''records'', JArr (map JRaw ops))])]) = list_all Valid ops"
  by (simp add: list_all_iff)

text \<open>
  Claim C1. Once the server has answered and the body has decoded to an envelope \<open>e\<close>,
  \<^verbatim>\<open>request\<close> fails exactly when the envelope's error is not null. With an error, each
  of the five methods returns the API error with no result, whatever the response field
  holds and whatever the payload decoder would do (the decoder is replaced by an arbitrary
  one: it is not called). With a null error and a payload that the method's decoder
  accepts, the method returns the decoded result and no error. The status code of the
  answer is arbitrary: nothing depends on it.
\<close>

theorem envelope_error_decides:
  assumes "\<And>h q. transport E h q = Inr \<lparr>StatusCode = status, resp_Body = b\<rparr>"
    and "\<And>m u. new_request_error E m u = None"
    and "decode_envelope E b = Inr e"
    and "list_all Valid operations"
  shows "((\<exists>err. fst (request E c ctx method route None n) = Inl err) \<longleftrightarrow> Error e \<noteq> None)
    \<and> (\<forall>msg. Error e = Some msg \<longrightarrow>
          fst (Ping (E\<lparr>unmarshal_Ping := u1\<rparr>) c ctx n) = Return None (Some (Errorf (''API error: '' @ msg)))
        \<and> fst (UserData (E\<lparr>unmarshal_UserData := u2\<rparr>) c ctx n) = Return None (Some (Errorf (''API error: '' @ msg)))
        \<and> fst (Domains (E\<lparr>unmarshal_Domains := u3\<rparr>) c ctx n) = Return None (Some (Errorf (''API error: '' @ msg)))
        \<and> fst (Records_of (E\<lparr>unmarshal_Records := u4\<rparr>) c ctx domain n) = Return None (Some (Errorf (''API error: '' @ msg)))
        \<and> fst (ModifyRecords (E\<lparr>unmarshal_ModifyRecords := u5\<rparr>) c ctx domain operations n)
            = Return None (Some (Errorf (''API error: '' @ msg))))
    \<and> (\<forall>raw. Error e = None \<and> Response e = Some raw \<longrightarrow>
          (snd (unmarshal_Ping E raw) = None \<longrightarrow>
             fst (Ping E c ctx n) = Return (Some (fst (unmarshal_Ping E raw))) None)
        \<and> (snd (unmarshal_UserData E raw) = None \<longrightarrow>
             fst (UserData E c ctx n) = Return (Some (fst (unmarshal_UserData E raw))) None)
        \<and> (snd (unmarshal_Domains E raw) = None \<longrightarrow>
             fst (Domains E c ctx n) = Return (Some (fst (unmarshal_Domains E raw))) None)
        \<and> (snd (unmarshal_Records E raw) = None \<longrightarrow>
             fst (Records_of E c ctx domain n) = Return (Some (fst (unmarshal_Records E raw))) None)
        \<and> (snd (unmarshal_ModifyRecords E raw) = None \<longrightarrow>
             fst (ModifyRecords E c ctx domain operations n)
               = Return (Some (fst (unmarshal_ModifyRecords E raw))) None))"
proof -
  have r: "fst (request E' c ctx m rt body n) =
      (case Error e of Some msg \<Rightarrow> Inl (Errorf (''API error: '' @ msg)) | None \<Rightarrow> Inr e)"
    if "transport E' = transport E" "new_request_error E' = new_request_error E"
       "decode_envelope E' = decode_envelope E" "\<And>v. body = Some v \<Longrightarrow> marshalable v"
    for E' :: "'a env" and m rt body
    using that assms(1-3) by (intro request_fst [where res = "\<lparr>StatusCode = status, resp_Body = b\<rparr>"]) simp_all
  have rn: "fst (request E' c ctx m rt None n) =
      (case Error e of Some msg \<Rightarrow> Inl (Errorf (''API error: '' @ msg)) | None \<Rightarrow> Inr e)"
    if "transport E' = transport E" "new_request_error E' = new_request_error E"
       "decode_envelope E' = decode_envelope E"
    for E' :: "'a env" and m rt
    using that by (intro r) simp_all
  have first: "(\<exists>err. fst (request E c ctx method route None n) = Inl err) \<longleftrightarrow> Error e \<noteq> None"
    by (simp add: rn split: option.splits)
  have p: "fst x = Inl err \<Longrightarrow> (case x of (Inl err, n') \<Rightarrow> f err n' | (Inr res, n') \<Rightarrow> g res n') = f err (snd x)"
    for x :: "(error + apiResponse) \<times> 'a net" and err f g
    by (cases x) (auto split: sum.splits)
  have q: "fst x = Inr res \<Longrightarrow> (case x of (Inl err, n') \<Rightarrow> f err n' | (Inr res, n') \<Rightarrow> g res n') = g res (snd x)"
    for x :: "(error + apiResponse) \<times> 'a net" and res f g
    by (cases x) (auto split: sum.splits)
  have m: "marshalable (JObj [(''data'', JObj [(''records'', JArr (map JRaw operations))])])"
    unfolding marshalable_batch by (rule assms(4))
  have rb: "fst (request E' c ctx mt rt
        (Some (JObj [(''data'', JObj [(''records'', JArr (map JRaw operations))])])) n) =
      (case Error e of Some msg \<Rightarrow> Inl (Errorf (''API error: '' @ msg)) | None \<Rightarrow> Inr e)"
    if "transport E' = transport E" "new_request_error E' = new_request_error E"
       "decode_envelope E' = decode_envelope E"
    for E' :: "'a env" and mt rt
    using that m by (intro r) auto
  show ?thesis
    apply (intro conjI allI impI)
    subgoal by (rule first)
    subgoal for msg unfolding Ping_def by (subst p [of _ "Errorf (''API error: '' @ msg)"]) (simp_all add: rn)
    subgoal for msg unfolding UserData_def by (subst p [of _ "Errorf (''API error: '' @ msg)"]) (simp_all add: rn)
    subgoal for msg unfolding Domains_def by (subst p [of _ "Errorf (''API error: '' @ msg)"]) (simp_all add: rn)
    subgoal for msg unfolding Records_of_def by (subst p [of _ "Errorf (''API error: '' @ msg)"]) (simp_all add: rn)
    subgoal for msg unfolding ModifyRecords_def by (subst p [of _ "Errorf (''API error: '' @ msg)"]) (simp_all add: rb)
    subgoal for raw unfolding Ping_def by (subst q [of _ e]) (simp_all add: rn)
    subgoal for raw unfolding UserData_def by (subst q [of _ e]) (simp_all add: rn)
    subgoal for raw unfolding Domains_def by (subst q [of _ e]) (simp_all add: rn)
    subgoal for raw unfolding Records_of_def by (subst q [of _ e]) (simp_all add: rn)
    subgoal for raw unfolding ModifyRecords_def by (subst q [of _ e]) (simp_all add: rb)
    done
qed


lemma example_env_sel [simp]:
  "transport (example_env st b e) h q = Inr \<lparr>StatusCode = st, resp_Body = b\<rparr>"
  "new_request_error (example_env st b e) m u = None"
  "decode_envelope (example_env st b e) b = Inr e"
  "unmarshal_Ping (example_env st b e) raw = (\<lparr>Time = raw\<rparr>, None)"
  "unmarshal_Domains (example_env st b e) raw = (Map.empty, None)"
  "unix_now (example_env st b e) = 1604000000"
  by (simp_all add: example_env_def)

text \<open>
  The theorem of C1 at a status of 500: an envelope with an error (and a response) makes
  \<^verbatim>\<open>Domains\<close> fail, an envelope without one makes \<^verbatim>\<open>Ping\<close> succeed.
\<close>

theorem envelope_error_decides_witness:
  "fst (Domains (example_env 500 ''b'' (invalid_domain [''domain'' \<mapsto> ''not found''])) no_client () idle)
      = Return None (Some (Errorf ''API error: invalid domain''))
   \<and> fst (Ping (example_env 500 ''b'' (success (Some ''{}''))) no_client () idle)
      = Return (Some \<lparr>Time = ''{}''\<rparr>) None"
proof -
  have a: "list_all Valid []" by simp
  have "fst (Domains ((example_env 500 ''b'' (invalid_domain [''domain'' \<mapsto> ''not found'']))
            \<lparr>unmarshal_Domains := unmarshal_Domains (example_env 500 ''b'' (invalid_domain [''domain'' \<mapsto> ''not found'']))\<rparr>) no_client () idle)
      = Return None (Some (Errorf (''API error: '' @ ''invalid domain'')))"
    using envelope_error_decides [where E = "example_env 500 ''b'' (invalid_domain [''domain'' \<mapsto> ''not found''])"
        and status = 500 and b = "''b''" and e = "invalid_domain [''domain'' \<mapsto> ''not found'']"
        and c = no_client and n = idle and ctx = "()"
        and ?u3.0 = "unmarshal_Domains (example_env 500 ''b'' (invalid_domain [''domain'' \<mapsto> ''not found'']))",
        OF example_env_sel(1) example_env_sel(2) example_env_sel(3) a]
    by (simp add: invalid_domain_def)
  moreover have "fst (Ping (example_env 500 ''b'' (success (Some ''{}''))) no_client () idle)
      = Return (Some (fst (unmarshal_Ping (example_env 500 ''b'' (success (Some ''{}''))) ''{}''))) None"
    using envelope_error_decides [where E = "example_env 500 ''b'' (success (Some ''{}''))"
        and status = 500 and b = "''b''" and e = "success (Some ''{}'')"
        and c = no_client and n = idle and ctx = "()",
        OF example_env_sel(1) example_env_sel(2) example_env_sel(3) a]
    by (simp add: success_def)
  ultimately show ?thesis by simp
qed


text \<open>
  Claim C7. With a null error and a response that is null or absent (the pointer is nil),
  each of the five methods panics on \<^verbatim>\<open>*res.Response\<close> instead of returning an error;
  with a response present, each returns.
\<close>

theorem nil_response_panics:
  assumes "\<And>h q. transport E h q = Inr \<lparr>StatusCode = status, resp_Body = b\<rparr>"
    and "\<And>m u. new_request_error E m u = None"
    and "decode_envelope E b = Inr e"
    and "list_all Valid operations"
    and "Error e = None"
  shows "(Response e = None \<longrightarrow>
            fst (Ping E c ctx n) = PanicNilDereference
          \<and> fst (UserData E c ctx n) = PanicNilDereference
          \<and> fst (Domains E c ctx n) = PanicNilDereference
          \<and> fst (Records_of E c ctx domain n) = PanicNilDereference
          \<and> fst (ModifyRecords E c ctx domain operations n) = PanicNilDereference)
    \<and> (\<forall>raw. Response e = Some raw \<longrightarrow>
            fst (Ping E c ctx n)
              = Return (Some (fst (unmarshal_Ping E raw))) (snd (unmarshal_Ping E raw))
          \<and> fst (UserData E c ctx n)
              = Return (Some (fst (unmarshal_UserData E raw))) (snd (unmarshal_UserData E raw))
          \<and> fst (Domains E c ctx n)
              = Return (Some (fst (unmarshal_Domains E raw))) (snd (unmarshal_Domains E raw))
          \<and> fst (Records_of E c ctx domain n)
              = Return (Some (fst (unmarshal_Records E raw))) (snd (unmarshal_Records E raw))
          \<and> fst (ModifyRecords E c ctx domain operations n)
              = Return (Some (fst (unmarshal_ModifyRecords E raw)))
                  (snd (unmarshal_ModifyRecords E raw)))"
proof -
  have rn: "fst (request E c ctx m rt None n) = Inr e" for m rt
    using assms by (subst request_fst [where res = "\<lparr>StatusCode = status, resp_Body = b\<rparr>" and e = e]) simp_all
  have m: "marshalable (JObj [(''data'', JObj [(''records'', JArr (map JRaw operations))])])"
    unfolding marshalable_batch by (rule assms(4))
  have rb: "fst (request E c ctx mt rt
        (Some (JObj [(''data'', JObj [(''records'', JArr (map JRaw operations))])])) n) = Inr e"
    for mt rt
    using assms(1-3,5) m
    by (subst request_fst [where res = "\<lparr>StatusCode = status, resp_Body = b\<rparr>" and e = e]) auto
  have q: "fst x = Inr res \<Longrightarrow> (case x of (Inl err, n') \<Rightarrow> f err n' | (Inr res, n') \<Rightarrow> g res n') = g res (snd x)"
    for x :: "(error + apiResponse) \<times> 'a net" and res f g
    by (cases x) (auto split: sum.splits)
  show ?thesis
    unfolding Ping_def UserData_def Domains_def Records_of_def ModifyRecords_def
    by (simp add: q [OF rn] q [OF rb])
qed

text \<open>
  The theorem of C7 on the envelope \<^verbatim>\<open>{"error":null,"response":null}\<close>.
\<close>

theorem nil_response_panics_witness:
  "fst (Domains (example_env 200 ''b'' (success None)) no_client () idle) = PanicNilDereference
   \<and> fst (ModifyRecords (example_env 200 ''b'' (success None)) no_client () ''example.com'' [] idle)
       = PanicNilDereference"
proof -
  have a: "list_all Valid []" by simp
  have e: "Error (success None) = None" by (simp add: success_def)
  show ?thesis
    using nil_response_panics [where E = "example_env 200 ''b'' (success None)"
        and status = 200 and b = "''b''" and e = "success None"
        and c = no_client and n = idle and ctx = "()" and domain = "''example.com''",
        OF example_env_sel(1) example_env_sel(2) example_env_sel(3) a e]
    by (simp add: success_def)
qed

text \<open>
  Claim C2 fails: the error that \<^verbatim>\<open>Domains\<close> returns for an envelope with the error data
  \<^verbatim>\<open>{"domain":"not found"}\<close> is the error it returns for the same envelope without
  error data, so the data cannot be recovered from it.
\<close>

theorem error_data_counterexample:
  "fst (Domains (example_env 400 ''b'' (invalid_domain [''domain'' \<mapsto> ''not found''])) no_client () idle)
     = Return None (Some (Errorf ''API error: invalid domain''))
   \<and> fst (Domains (example_env 400 ''b'' (invalid_domain Map.empty)) no_client () idle)
     = Return None (Some (Errorf ''API error: invalid domain''))
   \<and> ErrorData (invalid_domain [''domain'' \<mapsto> ''not found'']) ''domain'' = Some ''not found''
   \<and> ErrorData (invalid_domain Map.empty) ''domain'' = None"
  by (simp add: Domains_def request_None invalid_domain_def)

text \<open>
  Claim C2, amended. The error returned for an envelope with an error is the value of
  \<^verbatim>\<open>fmt.Errorf("API error: %s", msg)\<close>: it carries the message of the envelope, and it is
  the same whatever the envelope's error data is.
\<close>

theorem api_error_is_message_only:
  assumes "\<And>h q. transport E h q = Inr \<lparr>StatusCode = status, resp_Body = b\<rparr>"
    and "\<And>m u. new_request_error E m u = None"
    and "decode_envelope E b = Inr e"
    and "Error e = Some msg"
  shows "fst (request E c ctx meth route None n) = Inl (Errorf (''API error: '' @ msg))
    \<and> fst (request (E\<lparr>decode_envelope := (decode_envelope E)(b := Inr (e\<lparr>ErrorData := d\<rparr>))\<rparr>)
             c ctx meth route None n) = Inl (Errorf (''API error: '' @ msg))
    \<and> fst (Domains E c ctx n) = Return None (Some (Errorf (''API error: '' @ msg)))
    \<and> fst (Domains (E\<lparr>decode_envelope := (decode_envelope E)(b := Inr (e\<lparr>ErrorData := d\<rparr>))\<rparr>)
             c ctx n) = Return None (Some (Errorf (''API error: '' @ msg)))"
  using assms by (simp add: Domains_def request_None)

text \<open>
  The amended C2 on the envelope \<^verbatim>\<open>{"error":"invalid domain","errorData":{"domain":"not found"}}\<close>.
\<close>

theorem api_error_is_message_only_witness:
  "fst (request (example_env 400 ''b'' (invalid_domain [''domain'' \<mapsto> ''not found''])) no_client ()
          ''GET'' ''domains'' None idle) = Inl (Errorf ''API error: invalid domain'')"
proof -
  have e: "Error (invalid_domain [''domain'' \<mapsto> ''not found'']) = Some ''invalid domain''"
    by (simp add: invalid_domain_def)
  show ?thesis
    using api_error_is_message_only [where E = "example_env 400 ''b'' (invalid_domain [''domain'' \<mapsto> ''not found''])"
        and status = 400 and b = "''b''" and e = "invalid_domain [''domain'' \<mapsto> ''not found'']"
        and c = no_client and n = idle and ctx = "()" and meth = "''GET''" and route = "''domains''",
        OF example_env_sel(1) example_env_sel(2) example_env_sel(3) e]
    by simp
qed


end
